theory Spec2Isabelle
  imports Complex_Main "HOL-Library.Char_ord" "HOL-Library.List_Lexorder"
begin

section \<open>Text primitives\<close>

text \<open>
  The generator works on Python \<open>str\<close> values. A text is modelled as a \<open>string\<close> whose
  characters are the code points below 256, so \<open>of_char\<close> is Python's \<open>ord\<close>. On this
  range Python's \<open>str.isspace\<close> (also the regular expression class \<open>\s\<close>) holds of the
  twelve code points listed in \<open>is_space\<close>, \<open>\d\<close> holds of the ASCII digits only, and
  \<open>str.lower\<close> moves \<open>A-Z\<close> and the upper-case letters \<open>0xC0-0xDE\<close> (without \<open>0xD7\<close>)
  up by 32. Python compares strings lexicographically by code point, which is the order
  on \<open>char list\<close> used here.
\<close>

definition is_space :: "char \<Rightarrow> bool" where
  "is_space c = (of_char c \<in> {9, 10, 11, 12, 13, 28, 29, 30, 31, 32, 133, 160 :: nat})"

definition is_digit :: "char \<Rightarrow> bool" where
  "is_digit c = (48 \<le> (of_char c :: nat) \<and> (of_char c :: nat) \<le> 57)"

definition digit_val :: "char \<Rightarrow> nat" where
  "digit_val c = of_char c - 48"

definition lower_char :: "char \<Rightarrow> char" where
  "lower_char c =
     (let n = of_char c :: nat
      in if (65 \<le> n \<and> n \<le> 90) \<or> (192 \<le> n \<and> n \<le> 222 \<and> n \<noteq> 215)
         then char_of (n + 32) else c)"

definition lower :: "string \<Rightarrow> string" where
  "lower s = map lower_char s"

definition lstrip :: "string \<Rightarrow> string" where
  "lstrip s = dropWhile is_space s"

definition rstrip :: "string \<Rightarrow> string" where
  "rstrip s = rev (dropWhile is_space (rev s))"

definition strip :: "string \<Rightarrow> string" where
  "strip s = rstrip (lstrip s)"

text \<open>\<open>s.rstrip('/')\<close>: the trailing slashes are removed.\<close>

definition rstrip_slash :: "string \<Rightarrow> string" where
  "rstrip_slash s = rev (dropWhile (\<lambda>c. c = CHR ''/'') (rev s))"

text \<open>\<open>s.split(sep)\<close> for a one-character separator; the result is never empty.\<close>

fun split_on :: "char \<Rightarrow> string \<Rightarrow> string list" where
  "split_on sep [] = [[]]"
| "split_on sep (c # cs) =
     (if c = sep then [] # split_on sep cs
      else (case split_on sep cs of
              w # ws \<Rightarrow> (c # w) # ws
            | [] \<Rightarrow> [[c]]))"

section \<open>Configuration\<close>

definition POSTS_DIR :: string where "POSTS_DIR = ''posts''"
definition PER_PAGE :: nat where "PER_PAGE = 20"
definition SITE_URL :: string where "SITE_URL = ''https://comparellms.in''"

section \<open>The two meta tag patterns\<close>

text \<open>
  A pattern is a function from the text at the current position to the captured groups
  and the text after the match, \<open>None\<close> when the pattern does not match there. Every
  repetition in \<open>META_RE\<close> and \<open>META_RE_ALT\<close> is followed by a character outside the
  repeated class, so the greedy choice is the only one and no backtracking is modelled.
\<close>

definition is_quote :: "char \<Rightarrow> bool" where
  "is_quote c = (c = CHR 0x22 \<or> c = CHR 0x27)"

text \<open>A literal under \<open>re.I\<close>.\<close>

fun lit_ci :: "string \<Rightarrow> string \<Rightarrow> string option" where
  "lit_ci [] s = Some s"
| "lit_ci (p # ps) [] = None"
| "lit_ci (p # ps) (c # cs) = (if lower_char c = lower_char p then lit_ci ps cs else None)"

text \<open>\<open>\s+\<close>\<close>

fun spaces1 :: "string \<Rightarrow> string option" where
  "spaces1 [] = None"
| "spaces1 (c # cs) = (if is_space c then Some (dropWhile is_space cs) else None)"

text \<open>The literal \<open>s+\<close> of \<open>META_RE_ALT\<close>, under \<open>re.I\<close>.\<close>

fun letter_s1 :: "string \<Rightarrow> string option" where
  "letter_s1 [] = None"
| "letter_s1 (c # cs) =
     (if lower_char c = CHR ''s''
      then Some (dropWhile (\<lambda>c. lower_char c = CHR ''s'') cs) else None)"

text \<open>\<open>["\']\<close>\<close>

fun quote :: "string \<Rightarrow> string option" where
  "quote [] = None"
| "quote (c # cs) = (if is_quote c then Some cs else None)"

text \<open>\<open>([^"\']*)\<close> and \<open>([^"\']+)\<close>\<close>

definition not_quotes :: "string \<Rightarrow> (string \<times> string) option" where
  "not_quotes s = Some (takeWhile (\<lambda>c. \<not> is_quote c) s, dropWhile (\<lambda>c. \<not> is_quote c) s)"

definition not_quotes1 :: "string \<Rightarrow> (string \<times> string) option" where
  "not_quotes1 s =
     (if takeWhile (\<lambda>c. \<not> is_quote c) s = [] then None
      else Some (takeWhile (\<lambda>c. \<not> is_quote c) s, dropWhile (\<lambda>c. \<not> is_quote c) s))"

text \<open>
  \<open>META_RE = <meta\s+name=["\']([^"\']+)["\']\s+content=["\']([^"\']*)["\']\<close>;
  the groups are (name, content).
\<close>

definition META_RE :: "string \<Rightarrow> ((string \<times> string) \<times> string) option" where
  "META_RE s =
     Option.bind (lit_ci ''<meta'' s) (\<lambda>s.
     Option.bind (spaces1 s) (\<lambda>s.
     Option.bind (lit_ci ''name='' s) (\<lambda>s.
     Option.bind (quote s) (\<lambda>s.
     Option.bind (not_quotes1 s) (\<lambda>(g1, s).
     Option.bind (quote s) (\<lambda>s.
     Option.bind (spaces1 s) (\<lambda>s.
     Option.bind (lit_ci ''content='' s) (\<lambda>s.
     Option.bind (quote s) (\<lambda>s.
     Option.bind (not_quotes s) (\<lambda>(g2, s).
     Option.bind (quote s) (\<lambda>s.
     Some ((g1, g2), s))))))))))))"

text \<open>
  \<open>META_RE_ALT = <meta\s+content=["\']([^"\']*)["\']s+name=["\']([^"\']+)["\']\<close>;
  the groups are (content, name). Between the content and \<open>name=\<close> the pattern has the
  letter \<open>s\<close> repeated, as the source writes it.
\<close>

definition META_RE_ALT :: "string \<Rightarrow> ((string \<times> string) \<times> string) option" where
  "META_RE_ALT s =
     Option.bind (lit_ci ''<meta'' s) (\<lambda>s.
     Option.bind (spaces1 s) (\<lambda>s.
     Option.bind (lit_ci ''content='' s) (\<lambda>s.
     Option.bind (quote s) (\<lambda>s.
     Option.bind (not_quotes s) (\<lambda>(g1, s).
     Option.bind (quote s) (\<lambda>s.
     Option.bind (letter_s1 s) (\<lambda>s.
     Option.bind (lit_ci ''name='' s) (\<lambda>s.
     Option.bind (quote s) (\<lambda>s.
     Option.bind (not_quotes1 s) (\<lambda>(g2, s).
     Option.bind (quote s) (\<lambda>s.
     Some ((g1, g2), s))))))))))))"

text \<open>
  \<open>pattern.finditer(text)\<close>: the matches from left to right, without overlap. After a
  match the scan goes on behind it; the guard on the length only makes the recursion
  total for patterns that could match the empty text, which these two never do.
\<close>

fun finditer :: "(string \<Rightarrow> ('g \<times> string) option) \<Rightarrow> string \<Rightarrow> 'g list" where
  "finditer pat [] = []"
| "finditer pat (c # cs) =
     (case pat (c # cs) of
        None \<Rightarrow> finditer pat cs
      | Some (g, rest) \<Rightarrow>
          g # finditer pat (if length rest \<le> length cs then rest else cs))"

section \<open>Metadata Extractor\<close>

datatype log_event =
    WARN_posts_dir_not_found
  | WARN_no_index string
  | WARN_missing_date string
  | WARN_invalid_date string string
  | INFO_found nat
  | ERROR_could_not_read string

type_synonym meta_dict = "string \<rightharpoonup> string"

text \<open>The first loop of \<open>read_meta_from_html\<close>: \<open>data[name] = content\<close>.\<close>

definition store_primary :: "string \<times> string \<Rightarrow> meta_dict \<Rightarrow> meta_dict" where
  "store_primary g data = data(lower (strip (fst g)) \<mapsto> strip (snd g))"

text \<open>The second loop: \<open>if name not in data: data[name] = content\<close>.\<close>

definition store_alt :: "string \<times> string \<Rightarrow> meta_dict \<Rightarrow> meta_dict" where
  "store_alt g data =
     (if data (lower (strip (snd g))) = None
      then data(lower (strip (snd g)) \<mapsto> strip (fst g)) else data)"

definition meta_of_html :: "string \<Rightarrow> meta_dict" where
  "meta_of_html html =
     fold store_alt (finditer META_RE_ALT html)
       (fold store_primary (finditer META_RE html) Map.empty)"

text \<open>
  The file is given by what reading it yields: \<open>None\<close> when \<open>open\<close> or \<open>read\<close> raises.
  The exception is caught, logged, and the empty dictionary is returned.
\<close>

definition read_meta_from_html :: "string \<Rightarrow> string option \<Rightarrow> meta_dict \<times> log_event list" where
  "read_meta_from_html path file =
     (case file of
        None \<Rightarrow> (Map.empty, [ERROR_could_not_read path])
      | Some html \<Rightarrow> (meta_of_html html, []))"

section \<open>Dates\<close>

text \<open>
  \<open>datetime.strptime(s, '%Y-%m-%d')\<close> compiles the format to the regular expression
  \<open>(\d\d\d\d)\-(1[0-2]|0[1-9]|[1-9])\-(3[0-1]|[1-2]\d|0[1-9]|[1-9]| [1-9])\<close>, matches it
  at the start of \<open>s\<close>, raises \<open>ValueError\<close> when there is no match or when text remains
  behind the match, converts the groups with \<open>int\<close> and raises \<open>ValueError\<close> again when
  they are no calendar date. The alternatives are tried in the order written, so a
  component yields the list of its matches in that order and the first match of the whole
  expression is the one taken.
\<close>

definition in_range :: "char \<Rightarrow> char \<Rightarrow> char \<Rightarrow> bool" where
  "in_range lo hi c = ((of_char lo :: nat) \<le> of_char c \<and> (of_char c :: nat) \<le> of_char hi)"

definition two :: "(char \<Rightarrow> bool) \<Rightarrow> (char \<Rightarrow> bool) \<Rightarrow> string \<Rightarrow> (string \<times> string) list" where
  "two p q s = (case s of a # b # r \<Rightarrow> if p a \<and> q b then [([a, b], r)] else [] | _ \<Rightarrow> [])"

definition one :: "(char \<Rightarrow> bool) \<Rightarrow> string \<Rightarrow> (string \<times> string) list" where
  "one p s = (case s of a # r \<Rightarrow> if p a then [([a], r)] else [] | _ \<Rightarrow> [])"

definition re_Y :: "string \<Rightarrow> (string \<times> string) list" where
  "re_Y s =
     (case s of
        a # b # c # d # r \<Rightarrow>
          if is_digit a \<and> is_digit b \<and> is_digit c \<and> is_digit d then [([a, b, c, d], r)] else []
      | _ \<Rightarrow> [])"

definition re_m :: "string \<Rightarrow> (string \<times> string) list" where
  "re_m s =
     two (\<lambda>c. c = CHR ''1'') (in_range CHR ''0'' CHR ''2'') s @
     two (\<lambda>c. c = CHR ''0'') (in_range CHR ''1'' CHR ''9'') s @
     one (in_range CHR ''1'' CHR ''9'') s"

definition re_d :: "string \<Rightarrow> (string \<times> string) list" where
  "re_d s =
     two (\<lambda>c. c = CHR ''3'') (in_range CHR ''0'' CHR ''1'') s @
     two (in_range CHR ''1'' CHR ''2'') is_digit s @
     two (\<lambda>c. c = CHR ''0'') (in_range CHR ''1'' CHR ''9'') s @
     one (in_range CHR ''1'' CHR ''9'') s @
     two (\<lambda>c. c = CHR '' '') (in_range CHR ''1'' CHR ''9'') s"

definition re_dash :: "string \<Rightarrow> string list" where
  "re_dash s = (case s of c # r \<Rightarrow> if c = CHR ''-'' then [r] else [] | [] \<Rightarrow> [])"

text \<open>\<open>int(group)\<close> on a group of digits with an optional leading blank.\<close>

definition int_of_group :: "string \<Rightarrow> nat" where
  "int_of_group g = fold (\<lambda>c n. 10 * n + digit_val c) (filter is_digit g) 0"

definition format_regex_match :: "string \<Rightarrow> ((string \<times> string \<times> string) \<times> string) option" where
  "format_regex_match s =
     (case [((y, m, d), r5). (y, r1) \<leftarrow> re_Y s, r2 \<leftarrow> re_dash r1, (m, r3) \<leftarrow> re_m r2,
                             r4 \<leftarrow> re_dash r3, (d, r5) \<leftarrow> re_d r4] of
        [] \<Rightarrow> None
      | found # _ \<Rightarrow> Some found)"

definition is_leap :: "nat \<Rightarrow> bool" where
  "is_leap y = (y mod 4 = 0 \<and> (y mod 100 \<noteq> 0 \<or> y mod 400 = 0))"

definition days_in_month :: "nat \<Rightarrow> nat \<Rightarrow> nat" where
  "days_in_month y m =
     (if m = 2 \<and> is_leap y then 29
      else [31, 28, 31, 30, 31, 30, 31, 31, 30, 31, 30, 31] ! (m - 1))"

text \<open>The check of the \<open>date\<close> constructor: \<open>MINYEAR = 1\<close>, \<open>MAXYEAR = 9999\<close>.\<close>

definition valid_date :: "nat \<Rightarrow> nat \<Rightarrow> nat \<Rightarrow> bool" where
  "valid_date y m d =
     (1 \<le> y \<and> y \<le> 9999 \<and> 1 \<le> m \<and> m \<le> 12 \<and> 1 \<le> d \<and> d \<le> days_in_month y m)"

text \<open>\<open>None\<close> is the \<open>ValueError\<close>; the value is (year, month, day).\<close>

definition strptime_ymd :: "string \<Rightarrow> (nat \<times> nat \<times> nat) option" where
  "strptime_ymd s =
     (case format_regex_match s of
        None \<Rightarrow> None
      | Some ((y, m, d), rest) \<Rightarrow>
          if rest \<noteq> [] then None
          else if valid_date (int_of_group y) (int_of_group m) (int_of_group d)
          then Some (int_of_group y, int_of_group m, int_of_group d)
          else None)"

text \<open>
  \<open>dt.strftime('%a, %d %b %Y 00:00:00 GMT')\<close> in the C locale. The interpreter hands the
  format to the C library, whose \<open>%d\<close> prints the day with two digits and whose \<open>%Y\<close>
  prints the year as a plain decimal number: a year below 1000 has fewer than four digits.
  The day of the week is \<open>(toordinal() + 6) % 7\<close> with Monday as 0.
\<close>

definition days_before_year :: "nat \<Rightarrow> nat" where
  "days_before_year y = (y - 1) * 365 + (y - 1) div 4 - (y - 1) div 100 + (y - 1) div 400"

definition days_before_month :: "nat \<Rightarrow> nat \<Rightarrow> nat" where
  "days_before_month y m = sum_list (map (days_in_month y) [1..<m])"

definition toordinal :: "nat \<times> nat \<times> nat \<Rightarrow> nat" where
  "toordinal dt = (case dt of (y, m, d) \<Rightarrow> days_before_year y + days_before_month y m + d)"

definition weekday :: "nat \<times> nat \<times> nat \<Rightarrow> nat" where
  "weekday dt = (toordinal dt + 6) mod 7"

definition day_abbr :: "string list" where
  "day_abbr = [''Mon'', ''Tue'', ''Wed'', ''Thu'', ''Fri'', ''Sat'', ''Sun'']"

definition month_abbr :: "string list" where
  "month_abbr = [''Jan'', ''Feb'', ''Mar'', ''Apr'', ''May'', ''Jun'',
                 ''Jul'', ''Aug'', ''Sep'', ''Oct'', ''Nov'', ''Dec'']"

definition digit_char :: "nat \<Rightarrow> char" where
  "digit_char n = char_of (48 + n mod 10)"

definition pad2 :: "nat \<Rightarrow> string" where
  "pad2 n = [digit_char (n div 10), digit_char n]"

text \<open>\<open>%Y\<close>: the decimal digits of the year, without padding.\<close>

fun decimal :: "nat \<Rightarrow> string" where
  "decimal n = (if n < 10 then [digit_char n] else decimal (n div 10) @ [digit_char n])"

declare decimal.simps [simp del]

definition strftime_rss :: "nat \<times> nat \<times> nat \<Rightarrow> string" where
  "strftime_rss dt =
     (case dt of (y, m, d) \<Rightarrow>
        day_abbr ! weekday dt @ '', '' @ pad2 d @ '' '' @ month_abbr ! (m - 1) @ '' '' @
        decimal y @ '' 00:00:00 GMT'')"

definition format_rss_date :: "string \<Rightarrow> string" where
  "format_rss_date date_str =
     (case strptime_ymd date_str of
        Some dt \<Rightarrow> strftime_rss dt
      | None \<Rightarrow> date_str)"

section \<open>Post Collector\<close>

record post =
  slug :: string
  url :: string
  title :: string
  date :: string
  updated :: string
  summary :: string
  thumb :: string
  tags :: "string list"

text \<open>\<open>a or b\<close> where \<open>a\<close> is \<open>None\<close> or a string: the empty string is false.\<close>

fun py_or :: "string option \<Rightarrow> string \<Rightarrow> string" where
  "py_or None b = b"
| "py_or (Some []) b = b"
| "py_or (Some (c # cs)) b = c # cs"

text \<open>\<open>meta.get(key, default)\<close>\<close>

definition get_default :: "meta_dict \<Rightarrow> string \<Rightarrow> string \<Rightarrow> string" where
  "get_default meta k d = (case meta k of None \<Rightarrow> d | Some v \<Rightarrow> v)"

text \<open>\<open>[t.strip() for t in tags_raw.split(',') if t.strip()]\<close>\<close>

definition parse_tags :: "string \<Rightarrow> string list" where
  "parse_tags tags_raw = [strip t. t \<leftarrow> split_on CHR '','' tags_raw, strip t \<noteq> []]"

text \<open>
  The body of the loop of \<open>gather_posts\<close> from the extraction of the fields on: the
  warning when the post is skipped, the record when it is appended.
\<close>

definition post_of_meta :: "string \<Rightarrow> meta_dict \<Rightarrow> log_event + post" where
  "post_of_meta name meta =
     (let slug = py_or (meta ''post-slug'') name;
          date = meta ''post-date'';
          title = py_or (meta ''post-title'') (py_or (meta ''title'') slug);
          summary = py_or (meta ''post-summary'') (get_default meta ''description'' []);
          thumb = get_default meta ''post-thumb'' [];
          tags_raw = get_default meta ''post-tags'' [];
          updated = get_default meta ''post-updated'' [];
          tags = parse_tags tags_raw
      in case date of
           None \<Rightarrow> Inl (WARN_missing_date slug)
         | Some [] \<Rightarrow> Inl (WARN_missing_date slug)
         | Some (c # cs) \<Rightarrow>
             (case strptime_ymd (c # cs) of
                None \<Rightarrow> Inl (WARN_invalid_date slug (c # cs))
              | Some dt \<Rightarrow>
                  Inr \<lparr>slug = slug, url = ''/posts/'' @ slug @ ''/'', title = title,
                       date = c # cs, updated = updated, summary = summary, thumb = thumb,
                       tags = tags\<rparr>))"

text \<open>
  An entry of \<open>os.listdir(POSTS_DIR)\<close>: not a directory, a directory without
  \<open>index.html\<close>, or a directory whose \<open>index.html\<close> exists and reads as the given text
  (\<open>None\<close> when reading it raises).
\<close>

datatype dir_entry = Not_A_Directory | No_Index | Index "string option"

definition path_join :: "string \<Rightarrow> string \<Rightarrow> string" where
  "path_join a b = a @ ''/'' @ b"

text \<open>One round of the loop: the events it logs and the record it appends, if any.\<close>

definition visit :: "string \<times> dir_entry \<Rightarrow> log_event list \<times> post option" where
  "visit e =
     (case e of (name, entry) \<Rightarrow>
        (case entry of
           Not_A_Directory \<Rightarrow> ([], None)
         | No_Index \<Rightarrow> ([WARN_no_index (path_join POSTS_DIR name)], None)
         | Index file \<Rightarrow>
             (case read_meta_from_html (path_join (path_join POSTS_DIR name) ''index.html'') file of
                (meta, evs) \<Rightarrow>
                  (case post_of_meta name meta of
                     Inl w \<Rightarrow> (evs @ [w], None)
                   | Inr p \<Rightarrow> (evs, Some p)))))"

fun scan :: "(string \<times> dir_entry) list \<Rightarrow> post list \<times> log_event list \<Rightarrow> post list \<times> log_event list" where
  "scan [] acc = acc"
| "scan (e # es) (posts, lg) =
     (case visit e of
        (evs, None) \<Rightarrow> scan es (posts, lg @ evs)
      | (evs, Some p) \<Rightarrow> scan es (posts @ [p], lg @ evs))"

text \<open>
  \<open>posts.sort(key=lambda p: p['date'], reverse=True)\<close>: the library's sort is stable,
  also with \<open>reverse=True\<close>. It is modelled by the insertion sort that puts a record
  before the first record whose key is not greater.
\<close>

fun insort_desc :: "('a \<Rightarrow> 'k::linorder) \<Rightarrow> 'a \<Rightarrow> 'a list \<Rightarrow> 'a list" where
  "insort_desc f x [] = [x]"
| "insort_desc f x (y # ys) = (if f y \<le> f x then x # y # ys else y # insort_desc f x ys)"

definition sort_desc :: "('a \<Rightarrow> 'k::linorder) \<Rightarrow> 'a list \<Rightarrow> 'a list" where
  "sort_desc f xs = foldr (insort_desc f) xs []"

text \<open>
  The directory is \<open>None\<close> when \<open>POSTS_DIR\<close> is not a directory, else its listing in the
  order \<open>os.listdir\<close> returns it.
\<close>

definition gather_posts :: "(string \<times> dir_entry) list option \<Rightarrow> post list \<times> log_event list" where
  "gather_posts dir =
     (case dir of
        None \<Rightarrow> ([], [WARN_posts_dir_not_found])
      | Some listing \<Rightarrow>
          (case scan listing ([], []) of
             (posts, lg) \<Rightarrow>
               (sort_desc date posts, lg @ [INFO_found (length posts)])))"

section \<open>Index Writer\<close>

text \<open>
  What \<open>json.dump\<close> receives: the pointer has the four pagination fields, a page has
  them and its slice of the records. The file of page \<open>N\<close> is named by \<open>N\<close>, and the
  result lists the pages in the order they are written, then the pointer.
\<close>

record index_main =
  page :: nat
  per_page :: nat
  total_posts :: nat
  total_pages :: nat

record index_page = index_main +
  posts :: "post list"

text \<open>\<open>xs[start:end]\<close> for \<open>0 \<le> start \<le> end\<close>\<close>

definition slice :: "'a list \<Rightarrow> nat \<Rightarrow> nat \<Rightarrow> 'a list" where
  "slice xs start end = drop start (take end xs)"

definition write_paginated_indexes :: "post list \<Rightarrow> index_page list \<times> index_main" where
  "write_paginated_indexes ps =
     (let total = length ps;
          total_pages = max 1 ((total + PER_PAGE - 1) div PER_PAGE)
      in (map (\<lambda>page.
                let start = (page - 1) * PER_PAGE;
                    end = start + PER_PAGE;
                    page_posts = slice ps start end
                in \<lparr>page = page, per_page = PER_PAGE, total_posts = total,
                    total_pages = total_pages, posts = page_posts\<rparr>)
              [1..<total_pages + 1],
          \<lparr>page = 1, per_page = PER_PAGE, total_posts = total, total_pages = total_pages\<rparr>))"

section \<open>Sitemap and RSS Writers\<close>

text \<open>
  The element tree the writers build, before it is serialised: tag, attributes, text and
  children in the order \<open>SubElement\<close> appends them.
\<close>

datatype element =
  Element (tag: string) (attrib: "(string \<times> string) list") (etext: "string option")
    (children: "element list")

text \<open>\<open>SubElement(parent, tag).text = s\<close>\<close>

definition text_el :: "string \<Rightarrow> string \<Rightarrow> element" where
  "text_el t s = Element t [] (Some s) []"

definition url_el :: "string \<Rightarrow> string \<Rightarrow> string \<Rightarrow> string \<Rightarrow> element" where
  "url_el loc lastmod freq priority =
     Element ''url'' [] None
       [text_el ''loc'' loc, text_el ''lastmod'' lastmod, text_el ''changefreq'' freq,
        text_el ''priority'' priority]"

definition static_pages :: "(string \<times> string \<times> string \<times> string) list" where
  "static_pages =
     [(''/'', ''2025-01-01'', ''daily'', ''1.0''),
      (''/blog/'', ''2025-01-01'', ''daily'', ''0.9''),
      (''/about.html'', ''2025-01-01'', ''monthly'', ''0.5''),
      (''/contact.html'', ''2025-01-01'', ''monthly'', ''0.5''),
      (''/ai-content-policy.html'', ''2025-01-01'', ''monthly'', ''0.5'')]"

definition write_sitemap :: "post list \<Rightarrow> element" where
  "write_sitemap ps =
     Element ''urlset'' [(''xmlns'', ''http://www.sitemaps.org/schemas/sitemap/0.9'')] None
       (map (\<lambda>(path, lastmod, freq, priority).
               url_el (rstrip_slash SITE_URL @ path) lastmod freq priority) static_pages @
        map (\<lambda>post.
               url_el (rstrip_slash SITE_URL @ url post)
                 (py_or (Some (updated post)) (date post)) ''monthly'' ''0.7'') ps)"





section \<open>The patterns consume text\<close>

text \<open>
  A match of either pattern is never empty, so the scan of \<open>finditer\<close> always goes on
  behind the match.
\<close>

lemma lit_ci_length: "lit_ci p s = Some r \<Longrightarrow> length s = length p + length r"
  by (induction p s rule: lit_ci.induct) (auto split: if_splits)

lemma spaces1_length: "spaces1 s = Some r \<Longrightarrow> length r < length s"
  by (cases s) (auto split: if_splits simp: less_Suc_eq_le length_dropWhile_le)

lemma letter_s1_length: "letter_s1 s = Some r \<Longrightarrow> length r < length s"
  by (cases s) (auto split: if_splits simp: less_Suc_eq_le length_dropWhile_le)

lemma quote_length: "quote s = Some r \<Longrightarrow> length r < length s"
  by (cases s) (auto split: if_splits)

lemma not_quotes_length: "not_quotes s = Some (g, r) \<Longrightarrow> length r \<le> length s"
  by (auto simp: not_quotes_def length_dropWhile_le)

lemma not_quotes1_length: "not_quotes1 s = Some (g, r) \<Longrightarrow> length r \<le> length s"
  by (auto simp: not_quotes1_def length_dropWhile_le split: if_splits)

lemma META_RE_consumes:
  assumes "META_RE s = Some (g, rest)"
  shows "length rest < length s"
proof -
  from assms obtain s1 where 1: "lit_ci ''<meta'' s = Some s1"
    by (auto simp: META_RE_def bind_eq_Some_conv)
  from assms 1 obtain s2 s3 s4 g1 s5 s6 s7 s8 s9 g2 s10 where
    "spaces1 s1 = Some s2" "lit_ci ''name='' s2 = Some s3" "quote s3 = Some s4"
    "not_quotes1 s4 = Some (g1, s5)" "quote s5 = Some s6" "spaces1 s6 = Some s7"
    "lit_ci ''content='' s7 = Some s8" "quote s8 = Some s9" "not_quotes s9 = Some (g2, s10)"
    "quote s10 = Some rest"
    by (auto simp: META_RE_def bind_eq_Some_conv)
  with 1 show ?thesis
    by (auto dest!: lit_ci_length spaces1_length quote_length not_quotes_length not_quotes1_length)
qed

lemma META_RE_ALT_consumes:
  assumes "META_RE_ALT s = Some (g, rest)"
  shows "length rest < length s"
proof -
  from assms obtain s1 where 1: "lit_ci ''<meta'' s = Some s1"
    by (auto simp: META_RE_ALT_def bind_eq_Some_conv)
  from assms 1 obtain s2 s3 s4 g1 s5 s6 s7 s8 s9 g2 s10 where
    "spaces1 s1 = Some s2" "lit_ci ''content='' s2 = Some s3" "quote s3 = Some s4"
    "not_quotes s4 = Some (g1, s5)" "quote s5 = Some s6" "letter_s1 s6 = Some s7"
    "lit_ci ''name='' s7 = Some s8" "quote s8 = Some s9" "not_quotes1 s9 = Some (g2, s10)"
    "quote s10 = Some rest"
    by (auto simp: META_RE_ALT_def bind_eq_Some_conv)
  with 1 show ?thesis
    by (auto dest!: lit_ci_length spaces1_length letter_s1_length quote_length not_quotes_length
        not_quotes1_length)
qed

lemma finditer_META_RE:
  "finditer META_RE (c # cs) =
     (case META_RE (c # cs) of
        None \<Rightarrow> finditer META_RE cs
      | Some (g, rest) \<Rightarrow> g # finditer META_RE rest)"
  by (auto split: option.splits dest: META_RE_consumes)

lemma finditer_META_RE_ALT:
  "finditer META_RE_ALT (c # cs) =
     (case META_RE_ALT (c # cs) of
        None \<Rightarrow> finditer META_RE_ALT cs
      | Some (g, rest) \<Rightarrow> g # finditer META_RE_ALT rest)"
  by (auto split: option.splits dest: META_RE_ALT_consumes)

section \<open>Pagination\<close>

lemma ceil_div20: "nat \<lceil>real n / 20\<rceil> = (n + 19) div 20"
proof -
  define q where "q = (n + 19) div 20"
  have a: "20 * q \<le> n + 19" and b: "n < 20 * q + 1"
    unfolding q_def by arith+
  have "real (20 * q) \<le> real (n + 19)" using a by (simp only: of_nat_le_iff)
  hence a': "real_of_int (int q) - 1 < real n / 20" by simp
  have "real n < real (20 * q + 1)" using b by (simp only: of_nat_less_iff)
  hence "real n \<le> real (20 * q)" using b by simp
  hence b': "real n / 20 \<le> real_of_int (int q)" by simp
  have "\<lceil>real n / 20\<rceil> = int q" using a' b' by (rule ceiling_unique)
  thus ?thesis unfolding q_def by simp
qed

lemma total_pages_eq:
  "max 1 ((length ps + PER_PAGE - 1) div PER_PAGE) = max 1 (nat \<lceil>real (length ps) / 20\<rceil>)"
  by (simp add: ceil_div20 PER_PAGE_def)

text \<open>
  C4: for every post list of length \<open>n\<close> the Index Writer writes
  \<open>max(1, ceil(n / 20))\<close> pages, numbered from 1 without gaps, the pointer reports the
  same count, and for no posts at all the one page written is an empty page 1.
\<close>

theorem total_pages_formula:
  "length (fst (write_paginated_indexes ps)) = max 1 (nat \<lceil>real (length ps) / 20\<rceil>)
   \<and> map page (fst (write_paginated_indexes ps)) = [1..<Suc (max 1 (nat \<lceil>real (length ps) / 20\<rceil>))]
   \<and> total_pages (snd (write_paginated_indexes ps)) = max 1 (nat \<lceil>real (length ps) / 20\<rceil>)
   \<and> fst (write_paginated_indexes []) =
        [\<lparr>page = 1, per_page = 20, total_posts = 0, total_pages = 1, posts = []\<rparr>]"
proof -
  let ?tp = "max 1 ((length ps + PER_PAGE - 1) div PER_PAGE)"
  have 1: "length (fst (write_paginated_indexes ps)) = ?tp"
    by (simp add: write_paginated_indexes_def Let_def)
  have 2: "map page (fst (write_paginated_indexes ps)) = [1..<Suc ?tp]"
    by (simp add: write_paginated_indexes_def Let_def comp_def del: upt_Suc)
  have 3: "total_pages (snd (write_paginated_indexes ps)) = ?tp"
    by (simp add: write_paginated_indexes_def Let_def)
  have 4: "fst (write_paginated_indexes []) =
        [\<lparr>page = 1, per_page = 20, total_posts = 0, total_pages = 1, posts = []\<rparr>]"
    by (simp add: write_paginated_indexes_def Let_def PER_PAGE_def slice_def)
  show ?thesis using 1 2 3 4 unfolding total_pages_eq by blast
qed


lemma page_nth:
  assumes "1 \<le> N" "N \<le> max 1 ((length ps + PER_PAGE - 1) div PER_PAGE)"
  shows "fst (write_paginated_indexes ps) ! (N - 1) =
     \<lparr>page = N, per_page = PER_PAGE, total_posts = length ps,
      total_pages = max 1 ((length ps + PER_PAGE - 1) div PER_PAGE),
      posts = slice ps ((N - 1) * PER_PAGE) ((N - 1) * PER_PAGE + PER_PAGE)\<rparr>"
proof -
  let ?tp = "max 1 ((length ps + PER_PAGE - 1) div PER_PAGE)"
  have l: "N - 1 < length [1..<?tp + 1]" using assms by simp
  have n: "[1..<?tp + 1] ! (N - 1) = N" using assms by (simp add: nth_upt del: upt_Suc)
  show ?thesis
    unfolding write_paginated_indexes_def Let_def fst_conv
    by (simp only: nth_map [OF l] n)
qed

lemma slice_length: "length (slice xs a b) = min b (length xs) - a"
  by (simp add: slice_def)

lemma slice_nth:
  assumes "i < min b (length xs) - a"
  shows "slice xs a b ! i = xs ! (a + i)"
proof -
  have "a + i < b" "a + i \<le> length (take b xs)" using assms by auto
  thus ?thesis unfolding slice_def by (simp only: nth_drop nth_take)
qed

lemma slice_take_drop: "slice xs a (a + m) = take m (drop a xs)"
  by (simp add: slice_def drop_take)

lemma concat_slices:
  "concat (map (\<lambda>p. slice xs ((p - 1) * m) ((p - 1) * m + m)) [1..<k + 1]) = take (k * m) xs"
proof (induction k)
  case 0 then show ?case by simp
next
  case (Suc k)
  have "take (Suc k * m) xs = take (k * m + m) xs"
    by (simp add: add.commute)
  also have "\<dots> = take (k * m) xs @ take m (drop (k * m) xs)"
    by (rule take_add)
  finally have "take (Suc k * m) xs = take (k * m) xs @ take m (drop (k * m) xs)" .
  with Suc show ?case by (simp add: slice_take_drop)
qed

lemma pages_cover: "length ps \<le> max 1 ((length ps + PER_PAGE - 1) div PER_PAGE) * PER_PAGE"
  unfolding PER_PAGE_def by (simp add: max_def) arith

lemma concat_pages: "concat (map posts (fst (write_paginated_indexes ps))) = ps"
proof -
  let ?tp = "max 1 ((length ps + PER_PAGE - 1) div PER_PAGE)"
  have "concat (map posts (fst (write_paginated_indexes ps))) =
        concat (map (\<lambda>p. slice ps ((p - 1) * PER_PAGE) ((p - 1) * PER_PAGE + PER_PAGE)) [1..<?tp + 1])"
    by (simp add: write_paginated_indexes_def Let_def comp_def del: upt_Suc)
  also have "\<dots> = take (?tp * PER_PAGE) ps" by (rule concat_slices)
  also have "\<dots> = ps" using pages_cover by simp
  finally show ?thesis .
qed


text \<open>
  C5: for every post list and every page number \<open>N\<close> from 1 to the number of pages,
  page \<open>N\<close> holds exactly the records at the offsets \<open>(N-1)*20\<close> up to \<open>N*20\<close>
  (exclusive, and cut at the end of the list) in the order of the list; the numbers of
  records of all pages sum to \<open>n\<close>, and the pages read in sequence give the list back.
\<close>

theorem page_contents:
  assumes "1 \<le> N" and "N \<le> total_pages (snd (write_paginated_indexes ps))"
  shows "page (fst (write_paginated_indexes ps) ! (N - 1)) = N
    \<and> length (posts (fst (write_paginated_indexes ps) ! (N - 1))) =
        min (N * 20) (length ps) - (N - 1) * 20
    \<and> (\<forall>i < length (posts (fst (write_paginated_indexes ps) ! (N - 1))).
          posts (fst (write_paginated_indexes ps) ! (N - 1)) ! i = ps ! ((N - 1) * 20 + i))
    \<and> sum_list (map (\<lambda>pg. length (posts pg)) (fst (write_paginated_indexes ps))) = length ps
    \<and> concat (map posts (fst (write_paginated_indexes ps))) = ps"
proof -
  let ?pg = "fst (write_paginated_indexes ps) ! (N - 1)"
  have tp: "N \<le> max 1 ((length ps + PER_PAGE - 1) div PER_PAGE)"
    using assms(2) by (simp add: write_paginated_indexes_def Let_def)
  note pg = page_nth [OF assms(1) tp]
  have p: "posts ?pg = slice ps ((N - 1) * 20) ((N - 1) * 20 + 20)"
    unfolding pg by (simp add: PER_PAGE_def)
  have N20: "(N - 1) * 20 + 20 = N * 20" using assms(1) by (cases N) simp_all
  have 1: "page ?pg = N" unfolding pg by simp
  have 2: "length (posts ?pg) = min (N * 20) (length ps) - (N - 1) * 20"
    by (simp only: p slice_length N20)
  have 3: "\<forall>i < length (posts ?pg). posts ?pg ! i = ps ! ((N - 1) * 20 + i)"
    unfolding p slice_length by (intro allI impI) (rule slice_nth)
  have 5: "concat (map posts (fst (write_paginated_indexes ps))) = ps"
    by (rule concat_pages)
  have "sum_list (map (\<lambda>pg. length (posts pg)) (fst (write_paginated_indexes ps))) =
        length (concat (map posts (fst (write_paginated_indexes ps))))"
    by (simp add: length_concat comp_def)
  hence 4: "sum_list (map (\<lambda>pg. length (posts pg)) (fst (write_paginated_indexes ps))) = length ps"
    by (simp only: 5)
  show ?thesis using 1 2 3 4 5 by blast
qed

theorem page_contents_witness:
  "(1::nat) \<le> 2
   \<and> 2 \<le> total_pages (snd (write_paginated_indexes
          (map (\<lambda>n. \<lparr>slug = replicate n CHR ''p'', url = [], title = [], date = ''2025-06-01'',
                       updated = [], summary = [], thumb = [], tags = []\<rparr>) [0..<21])))
   \<and> map slug (posts (fst (write_paginated_indexes
          (map (\<lambda>n. \<lparr>slug = replicate n CHR ''p'', url = [], title = [], date = ''2025-06-01'',
                       updated = [], summary = [], thumb = [], tags = []\<rparr>) [0..<21])) ! (2 - 1)))
       = [replicate 20 CHR ''p'']"
proof -
  let ?ps = "map (\<lambda>n. \<lparr>slug = replicate n CHR ''p'', url = [], title = [], date = ''2025-06-01'',
                       updated = [], summary = [], thumb = [], tags = []\<rparr>) [0..<21]"
  have h: "2 \<le> total_pages (snd (write_paginated_indexes ?ps))"
    by (simp add: write_paginated_indexes_def Let_def PER_PAGE_def)
  have l: "length (posts (fst (write_paginated_indexes ?ps) ! (2 - 1))) = 1"
    using page_contents [of 2 ?ps] h by simp
  have n: "posts (fst (write_paginated_indexes ?ps) ! (2 - 1)) ! 0 = ?ps ! 20"
    using page_contents [of 2 ?ps] h l by simp
  have "posts (fst (write_paginated_indexes ?ps) ! (2 - 1)) = [?ps ! 20]"
    using l n by (cases "posts (fst (write_paginated_indexes ?ps) ! (2 - 1))") simp_all
  moreover have "slug (?ps ! 20) = replicate 20 CHR ''p''"
    by (simp only: nth_map length_upt nth_upt) simp
  ultimately show ?thesis using h by simp
qed

section \<open>Sitemap and feed\<close>

lemma site_url_rstrip: "rstrip_slash SITE_URL = ''https://comparellms.in''"
  by (simp add: rstrip_slash_def SITE_URL_def)

lemma py_or_Some: "py_or (Some a) b = (if a \<noteq> [] then a else b)"
  by (cases a) simp_all

text \<open>
  C6: for every post list the sitemap has the five static entries, in the order they are
  declared, and then one entry per post in the order of the list, \<open>5 + n\<close> entries in
  all. The location of a post entry is the site URL followed by the \<open>url\<close> of the post,
  its last modification is \<open>updated\<close> when that is not empty and \<open>date\<close> otherwise,
  its change frequency is \<open>monthly\<close> and its priority \<open>0.7\<close>.
\<close>

theorem sitemap_entries:
  "children (write_sitemap ps) =
     [Element ''url'' [] None
        [Element ''loc'' [] (Some ''https://comparellms.in/'') [],
         Element ''lastmod'' [] (Some ''2025-01-01'') [],
         Element ''changefreq'' [] (Some ''daily'') [],
         Element ''priority'' [] (Some ''1.0'') []],
      Element ''url'' [] None
        [Element ''loc'' [] (Some ''https://comparellms.in/blog/'') [],
         Element ''lastmod'' [] (Some ''2025-01-01'') [],
         Element ''changefreq'' [] (Some ''daily'') [],
         Element ''priority'' [] (Some ''0.9'') []],
      Element ''url'' [] None
        [Element ''loc'' [] (Some ''https://comparellms.in/about.html'') [],
         Element ''lastmod'' [] (Some ''2025-01-01'') [],
         Element ''changefreq'' [] (Some ''monthly'') [],
         Element ''priority'' [] (Some ''0.5'') []],
      Element ''url'' [] None
        [Element ''loc'' [] (Some ''https://comparellms.in/contact.html'') [],
         Element ''lastmod'' [] (Some ''2025-01-01'') [],
         Element ''changefreq'' [] (Some ''monthly'') [],
         Element ''priority'' [] (Some ''0.5'') []],
      Element ''url'' [] None
        [Element ''loc'' [] (Some ''https://comparellms.in/ai-content-policy.html'') [],
         Element ''lastmod'' [] (Some ''2025-01-01'') [],
         Element ''changefreq'' [] (Some ''monthly'') [],
         Element ''priority'' [] (Some ''0.5'') []]] @
     map (\<lambda>p. Element ''url'' [] None
                [Element ''loc'' [] (Some (''https://comparellms.in'' @ url p)) [],
                 Element ''lastmod'' [] (Some (if updated p \<noteq> [] then updated p else date p)) [],
                 Element ''changefreq'' [] (Some ''monthly'') [],
                 Element ''priority'' [] (Some ''0.7'') []]) ps
   \<and> length (children (write_sitemap ps)) = 5 + length ps"
  by (simp add: write_sitemap_def static_pages_def url_el_def text_el_def site_url_rstrip py_or_Some)


theorem sitemap_entries_witness:
  "map (\<lambda>e. map etext (children e))
     (drop 5 (children (write_sitemap
        [\<lparr>slug = ''a'', url = ''/posts/a/'', title = ''A'', date = ''2025-06-02'',
          updated = ''2025-07-01'', summary = [], thumb = [], tags = []\<rparr>,
         \<lparr>slug = ''b'', url = ''/posts/b/'', title = ''B'', date = ''2025-06-01'',
          updated = [], summary = [], thumb = [], tags = []\<rparr>]))) =
   [[Some ''https://comparellms.in/posts/a/'', Some ''2025-07-01'', Some ''monthly'', Some ''0.7''],
    [Some ''https://comparellms.in/posts/b/'', Some ''2025-06-01'', Some ''monthly'', Some ''0.7'']]"
  using sitemap_entries
    [of "[\<lparr>slug = ''a'', url = ''/posts/a/'', title = ''A'', date = ''2025-06-02'',
          updated = ''2025-07-01'', summary = [], thumb = [], tags = []\<rparr>,
         \<lparr>slug = ''b'', url = ''/posts/b/'', title = ''B'', date = ''2025-06-01'',
          updated = [], summary = [], thumb = [], tags = []\<rparr>]"]
  by simp







































lemmas strptime_eval =
  strptime_ymd_def format_regex_match_def re_Y_def re_m_def re_d_def re_dash_def two_def one_def
  in_range_def is_digit_def int_of_group_def digit_val_def valid_date_def days_in_month_def
  is_leap_def

lemmas strftime_eval =
  strftime_rss_def day_abbr_def month_abbr_def pad2_def decimal.simps digit_char_def
  char_of_def bit_0

lemma parse_20250601: "strptime_ymd ''2025-06-01'' = Some (2025, 6, 1)"
  by (simp add: strptime_eval)




lemma days_before_june_2025: "days_before_month 2025 6 = 151"
  by (simp add: days_before_month_def days_in_month_def is_leap_def upt_rec)



lemma weekday_20250601: "weekday (2025, 6, 1) = 6"
  by (simp add: weekday_def toordinal_def days_before_year_def days_before_june_2025)



lemma format_20250601: "format_rss_date ''2025-06-01'' = ''Sun, 01 Jun 2025 00:00:00 GMT''"
  using weekday_20250601 by (simp add: format_rss_date_def parse_20250601 strftime_eval)








lemmas regex_eval =
  META_RE_def META_RE_ALT_def not_quotes_def not_quotes1_def is_quote_def is_space_def
  lower_char_def char_of_def bit_0

lemmas text_eval =
  strip_def lstrip_def rstrip_def lower_def is_space_def lower_char_def char_of_def bit_0








section \<open>Extraction and fallbacks\<close>

lemma fold_store_primary:
  "fold store_primary ms d n =
     (if filter (\<lambda>g. lower (strip (fst g)) = n) ms = [] then d n
      else Some (strip (snd (last (filter (\<lambda>g. lower (strip (fst g)) = n) ms)))))"
proof (induction ms arbitrary: d)
  case Nil
  show ?case by simp
next
  case (Cons m ms)
  show ?case
    by (simp add: Cons.IH) (simp add: store_primary_def)
qed

lemma fold_store_alt_keeps: "d n \<noteq> None \<Longrightarrow> fold store_alt as d n = d n"
proof (induction as arbitrary: d)
  case Nil
  show ?case by simp
next
  case (Cons a as)
  have "store_alt a d n = d n" using Cons.prems by (auto simp: store_alt_def)
  with Cons show ?case by simp
qed

text \<open>
  C9: when the primary pattern matches a name (stripped and in lower case) in a file, the
  dictionary returned for the file holds under that name the stripped content of the last
  such match: a later occurrence overwrites an earlier one, and the alternate pattern
  never replaces the value.
\<close>

theorem primary_last_match_wins:
  assumes "filter (\<lambda>g. lower (strip (fst g)) = n) (finditer META_RE html) \<noteq> []"
  shows "fst (read_meta_from_html path (Some html)) n =
         Some (strip (snd (last (filter (\<lambda>g. lower (strip (fst g)) = n) (finditer META_RE html)))))"
proof -
  let ?d = "fold store_primary (finditer META_RE html) Map.empty"
  have p: "?d n = Some (strip (snd (last (filter (\<lambda>g. lower (strip (fst g)) = n) (finditer META_RE html)))))"
    using assms by (simp add: fold_store_primary)
  hence "fold store_alt (finditer META_RE_ALT html) ?d n = ?d n"
    by (intro fold_store_alt_keeps) simp
  thus ?thesis by (simp add: read_meta_from_html_def meta_of_html_def p)
qed

lemma py_or_empty_absent:
  "py_or ((meta(k \<mapsto> [])) x) b = py_or ((meta(k := None)) x) b"
  by simp

lemma get_default_empty_absent:
  "get_default (meta(k \<mapsto> [])) x [] = get_default (meta(k := None)) x []"
  by (simp add: get_default_def)

text \<open>
  C10: in the Post Collector a key whose value is the empty string gives the same result,
  record or warning, as the key being absent. An empty \<open>post-slug\<close> gives the directory
  name as slug, an empty \<open>post-title\<close> gives the \<open>title\<close> value and after it the slug,
  an empty \<open>post-summary\<close> gives the \<open>description\<close>, and an empty \<open>post-date\<close> is
  reported as a missing date.
\<close>

theorem empty_value_like_absent:
  "post_of_meta name (meta(k \<mapsto> [])) = post_of_meta name (meta(k := None))
   \<and> post_of_meta name (meta(''post-date'' \<mapsto> [])) =
       Inl (WARN_missing_date (py_or (meta ''post-slug'') name))
   \<and> (\<forall>p. post_of_meta name (meta(''post-slug'' \<mapsto> [])) = Inr p \<longrightarrow> slug p = name)
   \<and> (\<forall>p. post_of_meta name (meta(''post-title'' \<mapsto> [])) = Inr p \<longrightarrow>
          title p = py_or (meta ''title'') (slug p))
   \<and> (\<forall>p. post_of_meta name (meta(''post-title'' \<mapsto> [], ''title'' \<mapsto> [])) = Inr p \<longrightarrow>
          title p = slug p)
   \<and> (\<forall>p. post_of_meta name (meta(''post-summary'' \<mapsto> [])) = Inr p \<longrightarrow>
          summary p = get_default meta ''description'' [])"
proof (intro conjI allI impI)
  show "post_of_meta name (meta(k \<mapsto> [])) = post_of_meta name (meta(k := None))"
  proof (cases "k = ''post-date''")
    case True
    thus ?thesis by (simp add: post_of_meta_def get_default_def)
  next
    case False
    hence "(meta(k \<mapsto> [])) ''post-date'' = (meta(k := None)) ''post-date''" by simp
    thus ?thesis
      unfolding post_of_meta_def py_or_empty_absent get_default_empty_absent by simp
  qed
next
  show "post_of_meta name (meta(''post-date'' \<mapsto> [])) =
       Inl (WARN_missing_date (py_or (meta ''post-slug'') name))"
    by (simp add: post_of_meta_def)
next
  fix p assume "post_of_meta name (meta(''post-slug'' \<mapsto> [])) = Inr p"
  thus "slug p = name"
    by (auto simp: post_of_meta_def Let_def split: option.splits list.splits)
next
  fix p assume "post_of_meta name (meta(''post-title'' \<mapsto> [])) = Inr p"
  thus "title p = py_or (meta ''title'') (slug p)"
    by (auto simp: post_of_meta_def Let_def split: option.splits list.splits)
next
  fix p assume "post_of_meta name (meta(''post-title'' \<mapsto> [], ''title'' \<mapsto> [])) = Inr p"
  thus "title p = slug p"
    by (auto simp: post_of_meta_def Let_def split: option.splits list.splits)
next
  fix p assume "post_of_meta name (meta(''post-summary'' \<mapsto> [])) = Inr p"
  thus "summary p = get_default meta ''description'' []"
    by (auto simp: post_of_meta_def get_default_def Let_def split: option.splits list.splits)
qed


lemma retitled_primary:
  "finditer META_RE ''<meta name='post-title' content='Old' ><meta name='Post-Title' content='New' >''
   = [(''post-title'', ''Old''), (''Post-Title'', ''New'')]"
  by (simp add: regex_eval)

theorem primary_last_match_wins_witness:
  "filter (\<lambda>g. lower (strip (fst g)) = ''post-title'')
     (finditer META_RE ''<meta name='post-title' content='Old' ><meta name='Post-Title' content='New' >'')
     = [(''post-title'', ''Old''), (''Post-Title'', ''New'')]
   \<and> fst (read_meta_from_html ''posts/p/index.html''
         (Some ''<meta name='post-title' content='Old' ><meta name='Post-Title' content='New' >''))
       ''post-title'' = Some ''New''"
proof -
  let ?html = "''<meta name='post-title' content='Old' ><meta name='Post-Title' content='New' >''"
  have f: "filter (\<lambda>g. lower (strip (fst g)) = ''post-title'') (finditer META_RE ?html)
           = [(''post-title'', ''Old''), (''Post-Title'', ''New'')]"
    unfolding retitled_primary by (simp add: text_eval)
  have "fst (read_meta_from_html ''posts/p/index.html'' (Some ?html)) ''post-title'' =
        Some (strip (snd (last (filter (\<lambda>g. lower (strip (fst g)) = ''post-title'')
                                   (finditer META_RE ?html)))))"
  proof (rule primary_last_match_wins)
    show "filter (\<lambda>g. lower (strip (fst g)) = ''post-title'') (finditer META_RE ?html) \<noteq> []"
      unfolding f by simp
  qed
  also have "\<dots> = Some ''New''"
    unfolding f by (simp add: text_eval)
  finally have "fst (read_meta_from_html ''posts/p/index.html'' (Some ?html)) ''post-title'' =
      Some ''New''" .
  with f show ?thesis by (rule conjI)
qed

lemma tags_empty: "parse_tags [] = []"
  by (simp add: parse_tags_def text_eval)

theorem empty_value_like_absent_witness:
  "post_of_meta ''dir''
     ([''post-date'' \<mapsto> ''2025-06-01'', ''title'' \<mapsto> ''T'', ''description'' \<mapsto> ''D'', ''post-slug'' \<mapsto> []])
   = Inr \<lparr>slug = ''dir'', url = ''/posts/dir/'', title = ''T'', date = ''2025-06-01'',
           updated = [], summary = ''D'', thumb = [], tags = []\<rparr>
   \<and> post_of_meta ''dir''
     ([''post-date'' \<mapsto> ''2025-06-01'', ''title'' \<mapsto> ''T'', ''description'' \<mapsto> ''D'', ''post-title'' \<mapsto> []])
   = Inr \<lparr>slug = ''dir'', url = ''/posts/dir/'', title = ''T'', date = ''2025-06-01'',
           updated = [], summary = ''D'', thumb = [], tags = []\<rparr>
   \<and> post_of_meta ''dir''
     ([''post-date'' \<mapsto> ''2025-06-01'', ''title'' \<mapsto> ''T'', ''description'' \<mapsto> ''D'', ''post-title'' \<mapsto> [], ''title'' \<mapsto> []])
   = Inr \<lparr>slug = ''dir'', url = ''/posts/dir/'', title = ''dir'', date = ''2025-06-01'',
           updated = [], summary = ''D'', thumb = [], tags = []\<rparr>
   \<and> post_of_meta ''dir''
     ([''post-date'' \<mapsto> ''2025-06-01'', ''title'' \<mapsto> ''T'', ''description'' \<mapsto> ''D'', ''post-summary'' \<mapsto> []])
   = Inr \<lparr>slug = ''dir'', url = ''/posts/dir/'', title = ''T'', date = ''2025-06-01'',
           updated = [], summary = ''D'', thumb = [], tags = []\<rparr>
   \<and> post_of_meta ''dir''
     ([''post-date'' \<mapsto> ''2025-06-01'', ''title'' \<mapsto> ''T'', ''description'' \<mapsto> ''D'', ''post-date'' \<mapsto> []])
   = Inl (WARN_missing_date ''dir'')"
proof -
  let ?M = "[''post-date'' \<mapsto> ''2025-06-01'', ''title'' \<mapsto> ''T'', ''description'' \<mapsto> ''D'']"
  let ?P = "\<lparr>slug = ''dir'', url = ''/posts/dir/'', title = ''T'', date = ''2025-06-01'',
           updated = [], summary = ''D'', thumb = [], tags = []\<rparr>"
  note T = empty_value_like_absent [of "''dir''" ?M "''post-slug''"]
  have a: "post_of_meta ''dir'' (?M(''post-slug'' := None)) = Inr ?P"
    by (simp add: post_of_meta_def Let_def get_default_def tags_empty parse_20250601)
  have 1: "post_of_meta ''dir'' (?M(''post-slug'' \<mapsto> [])) = Inr ?P"
    using T a by simp
  have s1: "slug ?P = ''dir''" using T 1 by blast
  have 2: "post_of_meta ''dir'' (?M(''post-title'' \<mapsto> [])) = Inr ?P"
    by (simp add: post_of_meta_def Let_def get_default_def tags_empty parse_20250601)
  have s2: "title ?P = py_or (?M ''title'') (slug ?P)" using T 2 by blast
  have 3: "post_of_meta ''dir'' (?M(''post-title'' \<mapsto> [], ''title'' \<mapsto> [])) = Inr (?P\<lparr>title := ''dir''\<rparr>)"
    by (simp add: post_of_meta_def Let_def get_default_def tags_empty parse_20250601)
  have s3: "title (?P\<lparr>title := ''dir''\<rparr>) = slug (?P\<lparr>title := ''dir''\<rparr>)" using T 3 by blast
  have 4: "post_of_meta ''dir'' (?M(''post-summary'' \<mapsto> [])) = Inr ?P"
    by (simp add: post_of_meta_def Let_def get_default_def tags_empty parse_20250601)
  have s4: "summary ?P = get_default ?M ''description'' []" using T 4 by blast
  have 5: "post_of_meta ''dir'' (?M(''post-date'' \<mapsto> [])) = Inl (WARN_missing_date ''dir'')"
    using T by simp
  show ?thesis using 1 2 3 4 5 by simp
qed

section \<open>Collected posts\<close>

lemma set_insort_desc: "set (insort_desc f x xs) = insert x (set xs)"
  by (induction xs) auto

lemma length_insort_desc: "length (insort_desc f x xs) = Suc (length xs)"
  by (induction xs) auto

lemma sorted_insort_desc:
  "sorted_wrt (\<lambda>a b. f b \<le> f a) xs \<Longrightarrow> sorted_wrt (\<lambda>a b. f b \<le> f a) (insort_desc f x xs)"
proof (induction xs)
  case Nil
  show ?case by simp
next
  case (Cons y ys)
  show ?case
  proof (cases "f y \<le> f x")
    case True
    with Cons.prems show ?thesis by (auto intro: order_trans)
  next
    case False
    with Cons show ?thesis by (auto simp: set_insort_desc)
  qed
qed

lemma filter_insort_desc:
  "filter (\<lambda>y. f y = k) (insort_desc f x xs) =
     (if f x = k then x # filter (\<lambda>y. f y = k) xs else filter (\<lambda>y. f y = k) xs)"
  by (induction xs) auto

lemma set_sort_desc: "set (sort_desc f xs) = set xs"
  unfolding sort_desc_def by (induction xs) (simp_all add: set_insort_desc)

lemma length_sort_desc: "length (sort_desc f xs) = length xs"
  unfolding sort_desc_def by (induction xs) (simp_all add: length_insort_desc)

lemma sorted_sort_desc: "sorted_wrt (\<lambda>a b. f b \<le> f a) (sort_desc f xs)"
  unfolding sort_desc_def by (induction xs) (simp_all add: sorted_insort_desc)

lemma filter_sort_desc: "filter (\<lambda>y. f y = k) (sort_desc f xs) = filter (\<lambda>y. f y = k) xs"
  unfolding sort_desc_def by (induction xs) (simp_all add: filter_insort_desc)

lemma gather_posts_Some:
  "gather_posts (Some listing) =
     (sort_desc date (fst (scan listing ([], []))),
      snd (scan listing ([], [])) @ [INFO_found (length (fst (scan listing ([], []))))])"
  by (simp add: gather_posts_def split: prod.splits)

text \<open>
  C3: the list returned by the Post Collector is sorted by \<open>date\<close>, largest first: a
  post with a greater \<open>date\<close> stands before a post with a smaller one, and posts with the
  same \<open>date\<close> keep the order in which the directory listing gave them. The \<open>date\<close>
  values are compared as the strings they are.
\<close>

theorem gather_posts_sorted:
  "sorted_wrt (\<lambda>a b. date b \<le> date a) (fst (gather_posts dir))
   \<and> (\<forall>i j. i < length (fst (gather_posts dir)) \<and> j < length (fst (gather_posts dir))
          \<and> date (fst (gather_posts dir) ! j) < date (fst (gather_posts dir) ! i) \<longrightarrow> i < j)
   \<and> (\<forall>listing k. dir = Some listing \<longrightarrow>
          filter (\<lambda>p. date p = k) (fst (gather_posts dir)) =
          filter (\<lambda>p. date p = k) (fst (scan listing ([], []))))"
proof (intro conjI allI impI)
  show s: "sorted_wrt (\<lambda>a b. date b \<le> date a) (fst (gather_posts dir))"
    by (cases dir) (simp_all add: gather_posts_Some sorted_sort_desc, simp add: gather_posts_def)
  fix i j
  assume h: "i < length (fst (gather_posts dir)) \<and> j < length (fst (gather_posts dir))
          \<and> date (fst (gather_posts dir) ! j) < date (fst (gather_posts dir) ! i)"
  show "i < j"
  proof (rule ccontr)
    assume "\<not> i < j"
    hence "j = i \<or> j < i" by auto
    thus False
    proof
      assume "j = i" with h show False by simp
    next
      assume "j < i"
      with s h have "date (fst (gather_posts dir) ! i) \<le> date (fst (gather_posts dir) ! j)"
        by (simp add: sorted_wrt_iff_nth_less)
      with h show False by (meson leD)
    qed
  qed
next
  fix listing k assume "dir = Some listing"
  thus "filter (\<lambda>p. date p = k) (fst (gather_posts dir)) =
        filter (\<lambda>p. date p = k) (fst (scan listing ([], [])))"
    by (simp add: gather_posts_Some filter_sort_desc)
qed


lemma scan_acc:
  "scan es (ps, lg) =
     (ps @ List.map_filter (\<lambda>e. snd (visit e)) es, lg @ concat (map (\<lambda>e. fst (visit e)) es))"
proof (induction es arbitrary: ps lg)
  case Nil
  show ?case by (simp add: List.map_filter_simps)
next
  case (Cons e es)
  show ?case
    by (cases "visit e") (auto simp: Cons.IH List.map_filter_simps split: option.splits)
qed

lemma scan_posts: "fst (scan listing ([], [])) = List.map_filter (\<lambda>e. snd (visit e)) listing"
  by (simp add: scan_acc)

lemma scan_log: "snd (scan listing ([], [])) = concat (map (\<lambda>e. fst (visit e)) listing)"
  by (simp add: scan_acc)

lemma set_map_filter_Some:
  "set (List.map_filter g xs) = {y. \<exists>x \<in> set xs. g x = Some y}"
  by (induction xs) (auto simp: List.map_filter_simps split: option.splits)

lemma set_gathered:
  "set (fst (gather_posts (Some listing))) = {p. \<exists>e \<in> set listing. snd (visit e) = Some p}"
  by (simp add: gather_posts_Some set_sort_desc scan_posts set_map_filter_Some)

lemma length_gathered:
  "length (fst (gather_posts (Some listing))) =
   length (filter (\<lambda>e. snd (visit e) \<noteq> None) listing)"
  by (simp add: gather_posts_Some length_sort_desc scan_posts List.map_filter_def)

lemma log_gathered:
  "e \<in> set listing \<Longrightarrow> w \<in> set (fst (visit e)) \<Longrightarrow> w \<in> set (snd (gather_posts (Some listing)))"
  by (auto simp: gather_posts_Some scan_log)

lemma post_of_meta_valid: "post_of_meta name meta = Inr p \<Longrightarrow> strptime_ymd (date p) \<noteq> None"
  by (auto simp: post_of_meta_def Let_def split: option.splits list.splits)

lemma visit_valid: "snd (visit e) = Some p \<Longrightarrow> strptime_ymd (date p) \<noteq> None"
  by (auto simp: visit_def dest: post_of_meta_valid split: prod.splits dir_entry.splits sum.splits)

lemma visit_Index:
  "visit (name, Index file) =
     (case post_of_meta name
             (fst (read_meta_from_html (path_join (path_join POSTS_DIR name) ''index.html'') file)) of
        Inl w \<Rightarrow>
          (snd (read_meta_from_html (path_join (path_join POSTS_DIR name) ''index.html'') file) @ [w],
           None)
      | Inr p \<Rightarrow>
          (snd (read_meta_from_html (path_join (path_join POSTS_DIR name) ''index.html'') file),
           Some p))"
  by (cases "read_meta_from_html (path_join (path_join POSTS_DIR name) ''index.html'') file")
     (simp add: visit_def split: sum.splits)

lemma post_of_meta_missing:
  "meta ''post-date'' = None \<or> meta ''post-date'' = Some [] \<Longrightarrow>
   post_of_meta name meta = Inl (WARN_missing_date (py_or (meta ''post-slug'') name))"
  by (auto simp: post_of_meta_def Let_def)

lemma post_of_meta_invalid:
  "meta ''post-date'' = Some d \<Longrightarrow> d \<noteq> [] \<Longrightarrow> strptime_ymd d = None \<Longrightarrow>
   post_of_meta name meta = Inl (WARN_invalid_date (py_or (meta ''post-slug'') name) d)"
  by (cases d) (auto simp: post_of_meta_def Let_def)

lemma post_of_meta_accepted:
  "meta ''post-date'' = Some d \<Longrightarrow> d \<noteq> [] \<Longrightarrow> strptime_ymd d \<noteq> None \<Longrightarrow>
   \<exists>p. post_of_meta name meta = Inr p \<and> date p = d"
  by (cases d) (auto simp: post_of_meta_def Let_def)

text \<open>
  C2: every post in the list returned by the Post Collector has a \<open>date\<close> that
  \<open>strptime\<close> accepts for the format \<open>%Y-%m-%d\<close>. A directory whose \<open>post-date\<close> is
  absent or empty is logged with the missing-date warning, one whose \<open>post-date\<close> does not
  parse with the invalid-date warning, and neither yields a post; a directory whose
  \<open>post-date\<close> parses yields its post whatever comes before or after it. The posts
  returned are exactly those of the accepted directories, and the log ends with the count
  that closes the scan.
\<close>

theorem gather_posts_valid_dates:
  "(\<forall>p \<in> set (fst (gather_posts dir)). strptime_ymd (date p) \<noteq> None)
   \<and> (\<forall>listing name file meta.
        dir = Some listing \<and> (name, Index file) \<in> set listing \<and>
        meta = fst (read_meta_from_html (path_join (path_join POSTS_DIR name) ''index.html'') file)
        \<longrightarrow>
          (meta ''post-date'' = None \<or> meta ''post-date'' = Some [] \<longrightarrow>
             WARN_missing_date (py_or (meta ''post-slug'') name) \<in> set (snd (gather_posts dir))
             \<and> snd (visit (name, Index file)) = None)
          \<and> (\<forall>d. meta ''post-date'' = Some d \<and> d \<noteq> [] \<and> strptime_ymd d = None \<longrightarrow>
             WARN_invalid_date (py_or (meta ''post-slug'') name) d \<in> set (snd (gather_posts dir))
             \<and> snd (visit (name, Index file)) = None)
          \<and> (\<forall>d. meta ''post-date'' = Some d \<and> d \<noteq> [] \<and> strptime_ymd d \<noteq> None \<longrightarrow>
             (\<exists>p \<in> set (fst (gather_posts dir)).
                snd (visit (name, Index file)) = Some p \<and> date p = d)))
   \<and> (\<forall>listing. dir = Some listing \<longrightarrow>
        length (fst (gather_posts dir)) = length (filter (\<lambda>e. snd (visit e) \<noteq> None) listing)
        \<and> set (fst (gather_posts dir)) = {p. \<exists>e \<in> set listing. snd (visit e) = Some p}
        \<and> last (snd (gather_posts dir)) = INFO_found (length (fst (gather_posts dir))))"
proof (intro conjI allI impI ballI)
  fix p assume p: "p \<in> set (fst (gather_posts dir))"
  show "strptime_ymd (date p) \<noteq> None"
  proof (cases dir)
    case None
    with p show ?thesis by (simp add: gather_posts_def)
  next
    case (Some listing)
    with p obtain e where "snd (visit e) = Some p" by (auto simp: set_gathered)
    thus ?thesis by (rule visit_valid)
  qed
next
  fix listing name fl meta
  assume h: "dir = Some listing \<and> (name, Index fl) \<in> set listing \<and>
        meta = fst (read_meta_from_html (path_join (path_join POSTS_DIR name) ''index.html'') fl)"
  assume m: "meta ''post-date'' = None \<or> meta ''post-date'' = Some []"
  have v: "visit (name, Index fl) =
        (snd (read_meta_from_html (path_join (path_join POSTS_DIR name) ''index.html'') fl) @
           [WARN_missing_date (py_or (meta ''post-slug'') name)], None)"
    using h m post_of_meta_missing [of meta name] by (simp add: visit_Index)
  show "WARN_missing_date (py_or (meta ''post-slug'') name) \<in> set (snd (gather_posts dir))"
    using h v log_gathered [of "(name, Index fl)" listing] by simp
  show "snd (visit (name, Index fl)) = None" using v by simp
next
  fix listing name fl meta d
  assume h: "dir = Some listing \<and> (name, Index fl) \<in> set listing \<and>
        meta = fst (read_meta_from_html (path_join (path_join POSTS_DIR name) ''index.html'') fl)"
  assume m: "meta ''post-date'' = Some d \<and> d \<noteq> [] \<and> strptime_ymd d = None"
  have v: "visit (name, Index fl) =
        (snd (read_meta_from_html (path_join (path_join POSTS_DIR name) ''index.html'') fl) @
           [WARN_invalid_date (py_or (meta ''post-slug'') name) d], None)"
    using h m post_of_meta_invalid [of meta d name] by (simp add: visit_Index)
  show "WARN_invalid_date (py_or (meta ''post-slug'') name) d \<in> set (snd (gather_posts dir))"
    using h v log_gathered [of "(name, Index fl)" listing] by simp
  show "snd (visit (name, Index fl)) = None" using v by simp
next
  fix listing name fl meta d
  assume h: "dir = Some listing \<and> (name, Index fl) \<in> set listing \<and>
        meta = fst (read_meta_from_html (path_join (path_join POSTS_DIR name) ''index.html'') fl)"
  assume m: "meta ''post-date'' = Some d \<and> d \<noteq> [] \<and> strptime_ymd d \<noteq> None"
  then obtain p where p: "post_of_meta name meta = Inr p" "date p = d"
    using post_of_meta_accepted [of meta d name] by blast
  hence v: "snd (visit (name, Index fl)) = Some p" using h by (simp add: visit_Index)
  hence "p \<in> set (fst (gather_posts dir))" using h by (auto simp: set_gathered)
  with v p show "\<exists>p \<in> set (fst (gather_posts dir)).
                snd (visit (name, Index fl)) = Some p \<and> date p = d" by blast
next
  fix listing assume d: "dir = Some listing"
  show "length (fst (gather_posts dir)) = length (filter (\<lambda>e. snd (visit e) \<noteq> None) listing)"
    unfolding d by (rule length_gathered)
  show "set (fst (gather_posts dir)) = {p. \<exists>e \<in> set listing. snd (visit e) = Some p}"
    unfolding d by (rule set_gathered)
  show "last (snd (gather_posts dir)) = INFO_found (length (fst (gather_posts dir)))"
    unfolding d by (simp add: gather_posts_Some length_sort_desc)
qed


lemma parse_20250602: "strptime_ymd ''2025-06-02'' = Some (2025, 6, 2)"
  by (simp add: strptime_eval)

lemma parse_compact: "strptime_ymd ''20250601'' = None"
  by (simp add: strptime_eval)

lemma june1_primary:
  "finditer META_RE ''<meta name='post-date' content='2025-06-01' >'' = [(''post-date'', ''2025-06-01'')]"
  by (simp add: regex_eval)

lemma june1_alt: "finditer META_RE_ALT ''<meta name='post-date' content='2025-06-01' >'' = []"
  by (simp add: regex_eval)

lemma june1_meta:
  "meta_of_html ''<meta name='post-date' content='2025-06-01' >'' = [''post-date'' \<mapsto> ''2025-06-01'']"
  unfolding meta_of_html_def june1_primary june1_alt
  by (simp add: store_primary_def text_eval)

lemma june2_primary:
  "finditer META_RE ''<meta name='post-date' content='2025-06-02' >'' = [(''post-date'', ''2025-06-02'')]"
  by (simp add: regex_eval)

lemma june2_alt: "finditer META_RE_ALT ''<meta name='post-date' content='2025-06-02' >'' = []"
  by (simp add: regex_eval)

lemma june2_meta:
  "meta_of_html ''<meta name='post-date' content='2025-06-02' >'' = [''post-date'' \<mapsto> ''2025-06-02'']"
  unfolding meta_of_html_def june2_primary june2_alt
  by (simp add: store_primary_def text_eval)

lemma compact_primary:
  "finditer META_RE ''<meta name='post-date' content='20250601' >'' = [(''post-date'', ''20250601'')]"
  by (simp add: regex_eval)

lemma compact_alt: "finditer META_RE_ALT ''<meta name='post-date' content='20250601' >'' = []"
  by (simp add: regex_eval)

lemma compact_meta:
  "meta_of_html ''<meta name='post-date' content='20250601' >'' = [''post-date'' \<mapsto> ''20250601'']"
  unfolding meta_of_html_def compact_primary compact_alt
  by (simp add: store_primary_def text_eval)

lemma nodate_primary: "finditer META_RE ''<p>no date</p>'' = []"
  by (simp add: regex_eval)

lemma nodate_alt: "finditer META_RE_ALT ''<p>no date</p>'' = []"
  by (simp add: regex_eval)

lemma nodate_meta: "meta_of_html ''<p>no date</p>'' = Map.empty"
  unfolding meta_of_html_def nodate_primary nodate_alt by simp

lemma read_meta_Some: "read_meta_from_html path (Some html) = (meta_of_html html, [])"
  by (simp add: read_meta_from_html_def)

lemma visit_june1:
  "visit (name, Index (Some ''<meta name='post-date' content='2025-06-01' >'')) =
     ([], Some \<lparr>slug = name, url = ''/posts/'' @ name @ ''/'', title = name, date = ''2025-06-01'',
                updated = [], summary = [], thumb = [], tags = []\<rparr>)"
  unfolding visit_Index read_meta_Some june1_meta
  by (simp add: post_of_meta_def Let_def get_default_def tags_empty parse_20250601)

lemma visit_june2:
  "visit (name, Index (Some ''<meta name='post-date' content='2025-06-02' >'')) =
     ([], Some \<lparr>slug = name, url = ''/posts/'' @ name @ ''/'', title = name, date = ''2025-06-02'',
                updated = [], summary = [], thumb = [], tags = []\<rparr>)"
  unfolding visit_Index read_meta_Some june2_meta
  by (simp add: post_of_meta_def Let_def get_default_def tags_empty parse_20250602)

lemma visit_compact:
  "visit (name, Index (Some ''<meta name='post-date' content='20250601' >'')) =
     ([WARN_invalid_date name ''20250601''], None)"
  unfolding visit_Index read_meta_Some compact_meta
  by (simp add: post_of_meta_def Let_def get_default_def tags_empty parse_compact)

lemma visit_nodate:
  "visit (name, Index (Some ''<p>no date</p>'')) = ([WARN_missing_date name], None)"
  unfolding visit_Index read_meta_Some nodate_meta
  by (simp add: post_of_meta_def Let_def get_default_def tags_empty)

lemma gather_three:
  "fst (gather_posts (Some
     [(''a'', Index (Some ''<meta name='post-date' content='2025-06-01' >'')),
      (''b'', Index (Some ''<meta name='post-date' content='2025-06-02' >'')),
      (''e'', Index (Some ''<meta name='post-date' content='2025-06-01' >''))])) =
   [\<lparr>slug = ''b'', url = ''/posts/b/'', title = ''b'', date = ''2025-06-02'',
      updated = [], summary = [], thumb = [], tags = []\<rparr>,
    \<lparr>slug = ''a'', url = ''/posts/a/'', title = ''a'', date = ''2025-06-01'',
      updated = [], summary = [], thumb = [], tags = []\<rparr>,
    \<lparr>slug = ''e'', url = ''/posts/e/'', title = ''e'', date = ''2025-06-01'',
      updated = [], summary = [], thumb = [], tags = []\<rparr>]"
  by (simp add: gather_posts_Some visit_june1 visit_june2 sort_desc_def)

theorem gather_posts_sorted_witness:
  "(0::nat) < length (fst (gather_posts (Some
     [(''a'', Index (Some ''<meta name='post-date' content='2025-06-01' >'')),
      (''b'', Index (Some ''<meta name='post-date' content='2025-06-02' >'')),
      (''e'', Index (Some ''<meta name='post-date' content='2025-06-01' >''))])))
   \<and> (1::nat) < length (fst (gather_posts (Some
     [(''a'', Index (Some ''<meta name='post-date' content='2025-06-01' >'')),
      (''b'', Index (Some ''<meta name='post-date' content='2025-06-02' >'')),
      (''e'', Index (Some ''<meta name='post-date' content='2025-06-01' >''))])))
   \<and> date (fst (gather_posts (Some
     [(''a'', Index (Some ''<meta name='post-date' content='2025-06-01' >'')),
      (''b'', Index (Some ''<meta name='post-date' content='2025-06-02' >'')),
      (''e'', Index (Some ''<meta name='post-date' content='2025-06-01' >''))])) ! 1)
     < date (fst (gather_posts (Some
     [(''a'', Index (Some ''<meta name='post-date' content='2025-06-01' >'')),
      (''b'', Index (Some ''<meta name='post-date' content='2025-06-02' >'')),
      (''e'', Index (Some ''<meta name='post-date' content='2025-06-01' >''))])) ! 0)
   \<and> map slug (fst (gather_posts (Some
     [(''a'', Index (Some ''<meta name='post-date' content='2025-06-01' >'')),
      (''b'', Index (Some ''<meta name='post-date' content='2025-06-02' >'')),
      (''e'', Index (Some ''<meta name='post-date' content='2025-06-01' >''))]))) = [''b'', ''a'', ''e'']
   \<and> map slug (filter (\<lambda>p. date p = ''2025-06-01'') (fst (gather_posts (Some
     [(''a'', Index (Some ''<meta name='post-date' content='2025-06-01' >'')),
      (''b'', Index (Some ''<meta name='post-date' content='2025-06-02' >'')),
      (''e'', Index (Some ''<meta name='post-date' content='2025-06-01' >''))])))) = [''a'', ''e'']"
proof -
  let ?L = "[(''a'', Index (Some ''<meta name='post-date' content='2025-06-01' >'')),
      (''b'', Index (Some ''<meta name='post-date' content='2025-06-02' >'')),
      (''e'', Index (Some ''<meta name='post-date' content='2025-06-01' >''))]"
  note T = gather_posts_sorted [of "Some ?L"]
  have "filter (\<lambda>p. date p = ''2025-06-01'') (fst (gather_posts (Some ?L))) =
        filter (\<lambda>p. date p = ''2025-06-01'') (fst (scan ?L ([], [])))"
    using T by blast
  hence st: "map slug (filter (\<lambda>p. date p = ''2025-06-01'') (fst (gather_posts (Some ?L)))) =
        [''a'', ''e'']"
    by (simp add: visit_june1 visit_june2)
  have "sorted_wrt (\<lambda>a b. date b \<le> date a) (fst (gather_posts (Some ?L)))"
    using T by blast
  show ?thesis using st unfolding gather_three by simp
qed


lemma gather_mixed:
  "fst (gather_posts (Some
     [(''a'', Index (Some ''<meta name='post-date' content='2025-06-01' >'')),
      (''c'', Index (Some ''<p>no date</p>'')),
      (''d'', Index (Some ''<meta name='post-date' content='20250601' >''))])) =
   [\<lparr>slug = ''a'', url = ''/posts/a/'', title = ''a'', date = ''2025-06-01'',
      updated = [], summary = [], thumb = [], tags = []\<rparr>]"
  by (simp add: gather_posts_Some visit_june1 visit_nodate visit_compact sort_desc_def)

theorem gather_posts_valid_dates_witness:
  "meta_of_html ''<p>no date</p>'' ''post-date'' = None
   \<and> WARN_missing_date ''c'' \<in> set (snd (gather_posts (Some
     [(''a'', Index (Some ''<meta name='post-date' content='2025-06-01' >'')),
      (''c'', Index (Some ''<p>no date</p>'')),
      (''d'', Index (Some ''<meta name='post-date' content='20250601' >''))])))
   \<and> meta_of_html ''<meta name='post-date' content='20250601' >'' ''post-date'' = Some ''20250601''
   \<and> strptime_ymd ''20250601'' = None
   \<and> WARN_invalid_date ''d'' ''20250601'' \<in> set (snd (gather_posts (Some
     [(''a'', Index (Some ''<meta name='post-date' content='2025-06-01' >'')),
      (''c'', Index (Some ''<p>no date</p>'')),
      (''d'', Index (Some ''<meta name='post-date' content='20250601' >''))])))
   \<and> meta_of_html ''<meta name='post-date' content='2025-06-01' >'' ''post-date'' = Some ''2025-06-01''
   \<and> strptime_ymd ''2025-06-01'' = Some (2025, 6, 1)
   \<and> ''2025-06-01'' \<in> set (map date (fst (gather_posts (Some
     [(''a'', Index (Some ''<meta name='post-date' content='2025-06-01' >'')),
      (''c'', Index (Some ''<p>no date</p>'')),
      (''d'', Index (Some ''<meta name='post-date' content='20250601' >''))]))))
   \<and> length (fst (gather_posts (Some
     [(''a'', Index (Some ''<meta name='post-date' content='2025-06-01' >'')),
      (''c'', Index (Some ''<p>no date</p>'')),
      (''d'', Index (Some ''<meta name='post-date' content='20250601' >''))]))) = 1
   \<and> map (\<lambda>p. strptime_ymd (date p) = None) (fst (gather_posts (Some
     [(''a'', Index (Some ''<meta name='post-date' content='2025-06-01' >'')),
      (''c'', Index (Some ''<p>no date</p>'')),
      (''d'', Index (Some ''<meta name='post-date' content='20250601' >''))]))) = [False]"
proof -
  let ?L = "[(''a'', Index (Some ''<meta name='post-date' content='2025-06-01' >'')),
      (''c'', Index (Some ''<p>no date</p>'')),
      (''d'', Index (Some ''<meta name='post-date' content='20250601' >''))]"
  note T = gather_posts_valid_dates [of "Some ?L"]
  note E = T [THEN conjunct2, THEN conjunct1, rule_format]
  have m0: "meta_of_html ''<p>no date</p>'' ''post-date'' = None"
    by (simp add: nodate_meta)
  have m3: "meta_of_html ''<meta name='post-date' content='20250601' >'' ''post-date'' = Some ''20250601''"
    by (simp add: compact_meta)
  have m1: "meta_of_html ''<meta name='post-date' content='2025-06-01' >'' ''post-date'' = Some ''2025-06-01''"
    by (simp add: june1_meta)
  have c: "Some ?L = Some ?L \<and> (''c'', Index (Some ''<p>no date</p>'')) \<in> set ?L \<and>
        meta_of_html ''<p>no date</p>'' =
        fst (read_meta_from_html (path_join (path_join POSTS_DIR ''c'') ''index.html'')
               (Some ''<p>no date</p>''))"
    by (simp add: read_meta_Some)
  have w0: "WARN_missing_date ''c'' \<in> set (snd (gather_posts (Some ?L)))"
    using E [OF c, THEN conjunct1] m0 by (simp add: nodate_meta)
  have d: "Some ?L = Some ?L \<and>
        (''d'', Index (Some ''<meta name='post-date' content='20250601' >'')) \<in> set ?L \<and>
        meta_of_html ''<meta name='post-date' content='20250601' >'' =
        fst (read_meta_from_html (path_join (path_join POSTS_DIR ''d'') ''index.html'')
               (Some ''<meta name='post-date' content='20250601' >''))"
    by (simp add: read_meta_Some)
  have w3: "WARN_invalid_date ''d'' ''20250601'' \<in> set (snd (gather_posts (Some ?L)))"
    using E [OF d, THEN conjunct2, THEN conjunct1, rule_format, of "''20250601''"] m3 parse_compact
    by (simp add: compact_meta)
  have a: "Some ?L = Some ?L \<and>
        (''a'', Index (Some ''<meta name='post-date' content='2025-06-01' >'')) \<in> set ?L \<and>
        meta_of_html ''<meta name='post-date' content='2025-06-01' >'' =
        fst (read_meta_from_html (path_join (path_join POSTS_DIR ''a'') ''index.html'')
               (Some ''<meta name='post-date' content='2025-06-01' >''))"
    by (simp add: read_meta_Some)
  have "\<exists>p \<in> set (fst (gather_posts (Some ?L))). date p = ''2025-06-01''"
    using E [OF a, THEN conjunct2, THEN conjunct2, rule_format, of "''2025-06-01''"] m1
      parse_20250601
    by auto
  then obtain p where p: "p \<in> set (fst (gather_posts (Some ?L)))" "date p = ''2025-06-01''"
    by blast
  have p1: "''2025-06-01'' \<in> set (map date (fst (gather_posts (Some ?L))))"
    unfolding set_map using p(2) [symmetric] p(1) by (rule image_eqI)
  have l: "length (fst (gather_posts (Some ?L))) = 1"
    using T [THEN conjunct2, THEN conjunct2, rule_format, of ?L]
    by (simp add: visit_june1 visit_nodate visit_compact)
  have "\<forall>p \<in> set (fst (gather_posts (Some ?L))). strptime_ymd (date p) \<noteq> None"
    using T by (rule conjunct1)
  hence v: "map (\<lambda>p. strptime_ymd (date p) = None) (fst (gather_posts (Some ?L))) = [False]"
    unfolding gather_mixed by simp
  from m0 w0 m3 parse_compact w3 m1 parse_20250601 p1 l v show ?thesis
    by (simp only: simp_thms)
qed

text \<open>
  \<open>strptime\<close> also accepts a month or a day of one digit, and the sort compares the strings
  as they were written: \<open>2025-6-1\<close> is the first of June and sorts before the second of
  June written \<open>2025-06-02\<close>.
\<close>

lemma unpadded_date_sorts_first:
  "strptime_ymd ''2025-6-1'' = Some (2025, 6, 1) \<and> ''2025-06-02'' < ''2025-6-1''"
  by (simp add: strptime_eval)

section \<open>The alternate tag order\<close>

lemma alternate_primary:
  "finditer META_RE ''<meta content='2025-06-01' name='post-date'>'' = []"
  by (simp add: regex_eval)

lemma alternate_alt:
  "finditer META_RE_ALT ''<meta content='2025-06-01' name='post-date'>'' = []"
  by (simp add: regex_eval)

lemma alternate_meta:
  "meta_of_html ''<meta content='2025-06-01' name='post-date'>'' = Map.empty"
  unfolding meta_of_html_def alternate_primary alternate_alt by simp

lemma usual_primary:
  "finditer META_RE ''<meta name='post-date' content='2025-06-01'>'' = [(''post-date'', ''2025-06-01'')]"
  by (simp add: regex_eval)

lemma usual_alt:
  "finditer META_RE_ALT ''<meta name='post-date' content='2025-06-01'>'' = []"
  by (simp add: regex_eval)

lemma letter_s_primary:
  "finditer META_RE ''<meta content='2025-06-01'sname='post-date'>'' = []"
  by (simp add: regex_eval)

lemma letter_s_alt:
  "finditer META_RE_ALT ''<meta content='2025-06-01'sname='post-date'>'' = [(''2025-06-01'', ''post-date'')]"
  by (simp add: regex_eval)

text \<open>
  C1: the extractor is to read a declaration in either order, \<open>name=... content=...\<close> and
  \<open>content=... name=...\<close>. On the file \<open><meta content='2025-06-01' name='post-date'>\<close>
  it returns the empty dictionary, and the directory of that file is skipped for a missing
  date; the same declaration in the first order is read. \<open>META_RE_ALT\<close> asks for the
  letter \<open>s\<close> where the white space between the two attributes is, so it matches
  \<open>content='2025-06-01'sname='post-date'\<close> instead.
\<close>

theorem alternate_order_not_recognised:
  "fst (read_meta_from_html ''posts/p/index.html''
          (Some ''<meta content='2025-06-01' name='post-date'>'')) = Map.empty
   \<and> visit (''p'', Index (Some ''<meta content='2025-06-01' name='post-date'>'')) =
       ([WARN_missing_date ''p''], None)
   \<and> fst (read_meta_from_html ''posts/p/index.html''
          (Some ''<meta name='post-date' content='2025-06-01'>'')) =
       [''post-date'' \<mapsto> ''2025-06-01'']
   \<and> fst (read_meta_from_html ''posts/p/index.html''
          (Some ''<meta content='2025-06-01'sname='post-date'>'')) =
       [''post-date'' \<mapsto> ''2025-06-01'']"
proof (intro conjI)
  show "fst (read_meta_from_html ''posts/p/index.html''
          (Some ''<meta content='2025-06-01' name='post-date'>'')) = Map.empty"
    unfolding read_meta_Some alternate_meta by simp
  show "visit (''p'', Index (Some ''<meta content='2025-06-01' name='post-date'>'')) =
       ([WARN_missing_date ''p''], None)"
    unfolding visit_Index read_meta_Some alternate_meta
    by (simp add: post_of_meta_def Let_def get_default_def tags_empty)
  show "fst (read_meta_from_html ''posts/p/index.html''
          (Some ''<meta name='post-date' content='2025-06-01'>'')) =
       [''post-date'' \<mapsto> ''2025-06-01'']"
    unfolding read_meta_Some meta_of_html_def usual_primary usual_alt
    by (simp add: store_primary_def text_eval)
  show "fst (read_meta_from_html ''posts/p/index.html''
          (Some ''<meta content='2025-06-01'sname='post-date'>'')) =
       [''post-date'' \<mapsto> ''2025-06-01'']"
    unfolding read_meta_Some meta_of_html_def letter_s_primary letter_s_alt
    by (simp add: store_alt_def text_eval)
qed

end
